theory Spec2Isabelle
  imports Complex_Main "HOL-Library.AList" "HOL-Library.Sublist"
begin

section \<open>Python values used by the script\<close>

text \<open>
  A Python \<open>str\<close> is modelled as a \<open>string\<close> holding its UTF-8 bytes: equality of
  two texts and the search for an ASCII substring agree with Python's on code points.
  Exceptions are values of \<open>error\<close>; a function that can raise returns \<open>error + 'a\<close>.
  Printing is not modelled.
\<close>

datatype error =
    ValueError string
  | KeyError string
  | TypeError

text \<open>A JSON object whose values are texts: a Python \<open>dict\<close>, read with \<open>map_of\<close>.\<close>

type_synonym json_object = "(string \<times> string) list"

text \<open>\<open>str(n)\<close> for an integer: decimal digits, a minus sign for a negative number.\<close>

function str_digits :: "int \<Rightarrow> string" where
  "str_digits n =
     (if n < 10 then [''0123456789'' ! nat n]
      else str_digits (n div 10) @ [''0123456789'' ! nat (n mod 10)])"
  by pat_completeness auto
termination
  by (relation "measure nat") auto

declare str_digits.simps [simp del]

definition str_int :: "int \<Rightarrow> string" where
  "str_int i = (if i < 0 then CHR ''-'' # str_digits (- i) else str_digits i)"

text \<open>\<open>sub in s\<close> on texts: \<open>sub\<close> occurs in \<open>s\<close> as a contiguous piece.\<close>

fun py_in :: "string \<Rightarrow> string \<Rightarrow> bool" where
  "py_in sub [] = (sub = [])"
| "py_in sub (c # cs) = (prefix sub (c # cs) \<or> py_in sub cs)"

section \<open>Dataset resolver: \<open>search_dvf_dataset\<close>\<close>

text \<open>The title the resolver looks for, \<open>Demandes de valeurs foncieres\<close> with a grave
  accent on the last \<open>e\<close> (bytes C3 A8 in UTF-8).\<close>

definition dvf_title :: string where
  "dvf_title = ''Demandes de valeurs fonci'' @ [CHR 0xC3, CHR 0xA8] @ ''res''"

text \<open>
  \<open>next((d for d in datasets if d["title"] == ...), None)\<close>: the entries are tried in
  order; \<open>d["title"]\<close> raises \<open>KeyError\<close> on an entry that has no title.
\<close>

fun next_dvf :: "json_object list \<Rightarrow> error + json_object option" where
  "next_dvf [] = Inr None"
| "next_dvf (d # ds) =
     (case map_of d ''title'' of
        None \<Rightarrow> Inl (KeyError ''title'')
      | Some t \<Rightarrow> if t = dvf_title then Inr (Some d) else next_dvf ds)"

text \<open>
  The argument is the \<open>data\<close> entry of the body of the one search request the function
  sends (\<open>None\<close> when the body has no such entry: \<open>.get("data", [])\<close>).
\<close>

definition search_dvf_dataset :: "json_object list option \<Rightarrow> error + string" where
  "search_dvf_dataset data =
     (let datasets = (case data of None \<Rightarrow> [] | Some ds \<Rightarrow> ds) in
      case next_dvf datasets of
        Inl e \<Rightarrow> Inl e
      | Inr None \<Rightarrow> Inl (ValueError ''DVF dataset not found'')
      | Inr (Some dvf_dataset) \<Rightarrow>
          (case map_of dvf_dataset ''id'' of
             None \<Rightarrow> Inl (KeyError ''id'')
           | Some i \<Rightarrow> Inr i))"

section \<open>Resource locator: \<open>get_resource_url\<close>\<close>

text \<open>The test of the loop body: \<open>str(year) in r.get("title", "") and
  r.get("format") == "txt.zip"\<close>.\<close>

definition resource_matches :: "int \<Rightarrow> json_object \<Rightarrow> bool" where
  "resource_matches year r =
     (let title = (case map_of r ''title'' of None \<Rightarrow> '''' | Some t \<Rightarrow> t) in
      py_in (str_int year) title \<and> map_of r ''format'' = Some ''txt.zip'')"

text \<open>The \<open>for\<close> loop with its \<open>break\<close>: the first resource that passes the test.\<close>

fun target_resource :: "int \<Rightarrow> json_object list \<Rightarrow> json_object option" where
  "target_resource year [] = None"
| "target_resource year (r # rs) =
     (if resource_matches year r then Some r else target_resource year rs)"

text \<open>
  The first argument is the \<open>resources\<close> entry of the dataset detail (\<open>None\<close> when it
  is absent: \<open>.get("resources", [])\<close>).
\<close>

definition get_resource_url :: "json_object list option \<Rightarrow> int \<Rightarrow> error + string" where
  "get_resource_url res year =
     (let resources = (case res of None \<Rightarrow> [] | Some rs \<Rightarrow> rs) in
      case target_resource year resources of
        None \<Rightarrow> Inl (ValueError (''No data found for year '' @ str_int year))
      | Some r \<Rightarrow>
          (case map_of r ''url'' of
             None \<Rightarrow> Inl (KeyError ''url'')
           | Some u \<Rightarrow> Inr u))"

section \<open>Transformer: the coercion table\<close>

text \<open>The dictionary \<open>transformations\<close>, in the order the source writes its entries
  (the order the loop visits them).\<close>

definition transformations :: "(string \<times> string) list" where
  "transformations =
     [(''No disposition'', ''int''),
      (''Date mutation'', ''date''),
      (''Valeur fonciere'', ''float''),
      (''No voie'', ''str''),
      (''Code postal'', ''str''),
      (''Code voie'', ''str''),
      (''Code commune'', ''str''),
      (''Code departement'', ''str''),
      (''No plan'', ''str''),
      (''Section'', ''str''),
      (''Code type local'', ''str''),
      (''Nombre de lots'', ''int''),
      (''Nombre pieces principales'', ''int''),
      (''Surface reelle bati'', ''float''),
      (''Surface terrain'', ''float'')]"

section \<open>Tables and the pandas operations the transformer calls\<close>

text \<open>
  A cell of a data frame after loading and coercion: the missing marker (\<open>pd.NA\<close>,
  \<open>NaN\<close> and \<open>NaT\<close> alike), a text, a nullable 64-bit integer, a number of a numeric
  column, or a date. A number is carried as the exact value its text denotes; the
  rounding and the range of the 64-bit float that stores it are not modelled. A frame is
  the list of its columns in order, each with its name.
\<close>

datatype number = Finite rat | PosInf | NegInf

datatype cell = NA | Text string | Int64 int | Float64 number | Datetime int int int

type_synonym frame = "(string \<times> cell list) list"

subsection \<open>\<open>pd.to_numeric(..., errors="coerce")\<close> on texts\<close>

text \<open>
  pandas parses each text of an object column with its own \<open>xstrtod\<close>: leading blanks,
  a sign, digits with an optional decimal point, an optional exponent, trailing blanks;
  at least one digit is required and the whole text must be consumed. A text that fails
  is still accepted when it spells infinity. Under \<open>errors="coerce"\<close> every other text
  gives \<open>NaN\<close>, here \<open>None\<close>.
\<close>

definition isspace_ascii :: "char \<Rightarrow> bool" where
  "isspace_ascii c = (let n = (of_char c :: int) in n = 32 \<or> (9 \<le> n \<and> n \<le> 13))"

definition isdigit_ascii :: "char \<Rightarrow> bool" where
  "isdigit_ascii c = (let n = (of_char c :: int) in 48 \<le> n \<and> n \<le> 57)"

definition tolower_ascii :: "char \<Rightarrow> char" where
  "tolower_ascii c =
     (let n = (of_char c :: int) in if 65 \<le> n \<and> n \<le> 90 then char_of (n + 32) else c)"

definition digits_value :: "string \<Rightarrow> int" where
  "digits_value ds = foldl (\<lambda>n c. 10 * n + (of_char c - 48)) 0 ds"

definition take_sign :: "string \<Rightarrow> bool \<times> string" where
  "take_sign p =
     (case p of
        [] \<Rightarrow> (False, p)
      | c # r \<Rightarrow>
          if c = CHR ''-'' then (True, r) else if c = CHR ''+'' then (False, r) else (False, p))"

definition pow10 :: "int \<Rightarrow> rat" where
  "pow10 e = (if 0 \<le> e then 10 ^ nat e else 1 / 10 ^ nat (- e))"

definition xstrtod :: "string \<Rightarrow> rat option" where
  "xstrtod s =
     (let p = dropWhile isspace_ascii s;
          (negative, p) = take_sign p;
          int_digits = takeWhile isdigit_ascii p;
          p = dropWhile isdigit_ascii p;
          has_point = (p \<noteq> [] \<and> hd p = CHR ''.'');
          frac_digits = (if has_point then takeWhile isdigit_ascii (tl p) else []);
          p = (if has_point then dropWhile isdigit_ascii (tl p) else p)
      in if int_digits = [] \<and> frac_digits = [] then None
         else
           let has_exp = (p \<noteq> [] \<and> tolower_ascii (hd p) = CHR ''e'');
               (exp_negative, q) = (if has_exp then take_sign (tl p) else (False, p));
               exp_digits = (if has_exp then takeWhile isdigit_ascii q else []);
               q = (if has_exp then dropWhile isdigit_ascii q else p);
               exponent = (if exp_negative then - digits_value exp_digits
                           else digits_value exp_digits);
               p_end = dropWhile isspace_ascii q;
               number = of_int (digits_value (int_digits @ frac_digits)) *
                        pow10 (exponent - int (length frac_digits))
           in if (has_exp \<and> exp_digits = []) \<or> p_end \<noteq> [] then None
              else Some (if negative then - number else number))"

definition floatify :: "string \<Rightarrow> number option" where
  "floatify s =
     (case xstrtod s of
        Some q \<Rightarrow> Some (Finite q)
      | None \<Rightarrow>
          (let w = map tolower_ascii s in
           if w = ''inf'' \<or> w = ''+inf'' \<or> w = ''infinity'' \<or> w = ''+infinity''
           then Some PosInf
           else if w = ''-inf'' \<or> w = ''-infinity'' then Some NegInf
           else None))"

text \<open>
  Element by element: a missing cell stays missing, a text is parsed, a number stays
  what it is. The loop below hands \<open>to_numeric\<close> only columns of texts and missing
  cells (every name occurs once in the table), so the last equation is never used; the
  model does not carry the nanosecond count pandas would give for a date.
\<close>

fun to_numeric_cell :: "cell \<Rightarrow> number option" where
  "to_numeric_cell NA = None"
| "to_numeric_cell (Text s) = floatify s"
| "to_numeric_cell (Int64 i) = Some (Finite (of_int i))"
| "to_numeric_cell (Float64 n) = Some n"
| "to_numeric_cell (Datetime y m d) = None"

definition to_numeric :: "cell list \<Rightarrow> number option list" where
  "to_numeric xs = map to_numeric_cell xs"

text \<open>The result of \<open>to_numeric\<close> as a column of the frame: \<open>NaN\<close> is the missing cell.\<close>

definition float64_series :: "number option list \<Rightarrow> cell list" where
  "float64_series ns = map (\<lambda>x. case x of None \<Rightarrow> NA | Some n \<Rightarrow> Float64 n) ns"

subsection \<open>\<open>.astype("Int64")\<close> on a numeric column\<close>

text \<open>
  The cast to nullable integers keeps \<open>NaN\<close> as missing and is a safe cast: when some
  value is not a whole number within the 64-bit range, pandas raises \<open>TypeError\<close>
  (cannot safely cast non-equivalent float64 to int64) for the whole column.
\<close>

fun safe_int64 :: "number \<Rightarrow> bool" where
  "safe_int64 (Finite q) = (of_int \<lfloor>q\<rfloor> = q \<and> - (2 ^ 63) \<le> \<lfloor>q\<rfloor> \<and> \<lfloor>q\<rfloor> < 2 ^ 63)"
| "safe_int64 PosInf = False"
| "safe_int64 NegInf = False"

fun int64_cell :: "number option \<Rightarrow> cell" where
  "int64_cell None = NA"
| "int64_cell (Some (Finite q)) = Int64 \<lfloor>q\<rfloor>"
| "int64_cell (Some PosInf) = NA"
| "int64_cell (Some NegInf) = NA"

definition astype_Int64 :: "number option list \<Rightarrow> error + cell list" where
  "astype_Int64 ns =
     (if list_all (\<lambda>x. case x of None \<Rightarrow> True | Some n \<Rightarrow> safe_int64 n) ns
      then Inr (map int64_cell ns) else Inl TypeError)"

subsection \<open>\<open>.str.replace(old, new, regex=False)\<close>\<close>

text \<open>Python's \<open>str.replace\<close>: every occurrence of \<open>old\<close>, left to right, without
  overlap; an empty \<open>old\<close> matches before every character and at the end.\<close>

function py_replace :: "string \<Rightarrow> string \<Rightarrow> string \<Rightarrow> string" where
  "py_replace old new [] = (if old = [] then new else [])"
| "py_replace old new (c # cs) =
     (if old = [] then new @ c # py_replace old new cs
      else if prefix old (c # cs) then new @ py_replace old new (drop (length old) (c # cs))
      else c # py_replace old new cs)"
  by pat_completeness auto
termination
  by (relation "measure (\<lambda>(old, new, s). length s)") auto

text \<open>On a column: texts are rewritten, a missing cell stays missing (and a cell that
  is not a text would become missing).\<close>

fun str_replace_cell :: "string \<Rightarrow> string \<Rightarrow> cell \<Rightarrow> cell" where
  "str_replace_cell old new (Text s) = Text (py_replace old new s)"
| "str_replace_cell old new x = NA"

definition str_replace :: "string \<Rightarrow> string \<Rightarrow> cell list \<Rightarrow> cell list" where
  "str_replace old new xs = map (str_replace_cell old new) xs"

subsection \<open>\<open>pd.to_datetime(..., format="%d/%m/%Y", errors="coerce")\<close>\<close>

text \<open>
  The format is matched as a regular expression against the whole text: the day is
  \<open>3[0-1]|[1-2][0-9]|0[1-9]|[1-9]| [1-9]\<close>, the month \<open>1[0-2]|0[1-9]|[1-9]\<close>, the year
  four digits, with a slash between them and nothing after the year. The three numbers
  must name a date of the calendar, and the date must lie in the range of a
  nanosecond timestamp (1677-09-22 to 2262-04-11, as in pandas 2). Everything else is
  \<open>NaT\<close> under \<open>errors="coerce"\<close>.
\<close>

definition char_between :: "int \<Rightarrow> char \<Rightarrow> int \<Rightarrow> bool" where
  "char_between lo c hi = (lo \<le> of_char c \<and> (of_char c :: int) \<le> hi)"

definition day_directive :: "string \<Rightarrow> bool" where
  "day_directive s =
     (case s of
        [a] \<Rightarrow> char_between 49 a 57
      | [a, b] \<Rightarrow>
          (a = CHR ''3'' \<and> char_between 48 b 49) \<or>
          (char_between 49 a 50 \<and> char_between 48 b 57) \<or>
          (a = CHR ''0'' \<and> char_between 49 b 57) \<or>
          (a = CHR '' '' \<and> char_between 49 b 57)
      | _ \<Rightarrow> False)"

definition month_directive :: "string \<Rightarrow> bool" where
  "month_directive s =
     (case s of
        [a] \<Rightarrow> char_between 49 a 57
      | [a, b] \<Rightarrow>
          (a = CHR ''1'' \<and> char_between 48 b 50) \<or>
          (a = CHR ''0'' \<and> char_between 49 b 57)
      | _ \<Rightarrow> False)"

definition year_directive :: "string \<Rightarrow> bool" where
  "year_directive s = (length s = 4 \<and> list_all isdigit_ascii s)"

definition is_leap :: "int \<Rightarrow> bool" where
  "is_leap y = (y mod 4 = 0 \<and> (y mod 100 \<noteq> 0 \<or> y mod 400 = 0))"

definition days_in_month :: "int \<Rightarrow> int \<Rightarrow> int" where
  "days_in_month y m =
     (if m = 2 then (if is_leap y then 29 else 28)
      else if m = 4 \<or> m = 6 \<or> m = 9 \<or> m = 11 then 30 else 31)"

definition valid_date :: "int \<Rightarrow> int \<Rightarrow> int \<Rightarrow> bool" where
  "valid_date y m d = (1 \<le> y \<and> 1 \<le> m \<and> m \<le> 12 \<and> 1 \<le> d \<and> d \<le> days_in_month y m)"

definition date_le :: "int \<times> int \<times> int \<Rightarrow> int \<times> int \<times> int \<Rightarrow> bool" where
  "date_le a b =
     (case (a, b) of ((y1, m1, d1), (y2, m2, d2)) \<Rightarrow>
        y1 < y2 \<or> (y1 = y2 \<and> (m1 < m2 \<or> (m1 = m2 \<and> d1 \<le> d2))))"

definition in_ns_bounds :: "int \<Rightarrow> int \<Rightarrow> int \<Rightarrow> bool" where
  "in_ns_bounds y m d = (date_le (1677, 9, 22) (y, m, d) \<and> date_le (y, m, d) (2262, 4, 11))"

text \<open>The result is (year, month, day).\<close>

definition strptime_dmY :: "string \<Rightarrow> (int \<times> int \<times> int) option" where
  "strptime_dmY s =
     (let not_slash = (\<lambda>c. c \<noteq> CHR ''/'');
          d = takeWhile not_slash s;
          r1 = dropWhile not_slash s;
          m = takeWhile not_slash (tl r1);
          r2 = dropWhile not_slash (tl r1);
          y = tl r2
      in if r1 \<noteq> [] \<and> r2 \<noteq> [] \<and> day_directive d \<and> month_directive m \<and> year_directive y
         then
           (let day = digits_value (dropWhile isspace_ascii d);
                month = digits_value m;
                year = digits_value y
            in if valid_date year month day \<and> in_ns_bounds year month day
               then Some (year, month, day) else None)
         else None)"

text \<open>On a column: a text is parsed, a missing cell stays missing, a date stays; a
  number spells no date of this format.\<close>

fun to_datetime_cell :: "cell \<Rightarrow> cell" where
  "to_datetime_cell (Text s) =
     (case strptime_dmY s of None \<Rightarrow> NA | Some (y, m, d) \<Rightarrow> Datetime y m d)"
| "to_datetime_cell (Datetime y m d) = Datetime y m d"
| "to_datetime_cell x = NA"

definition to_datetime :: "cell list \<Rightarrow> cell list" where
  "to_datetime xs = map to_datetime_cell xs"

subsection \<open>Frames\<close>

text \<open>\<open>.astype("object")\<close> changes the column's dtype, not its values.\<close>

definition astype_object :: "cell list \<Rightarrow> cell list" where
  "astype_object xs = xs"

text \<open>\<open>df[col]\<close> raises \<open>KeyError\<close> for a name the frame does not have;
  \<open>df[col] = xs\<close> replaces the column where it stands (and would append a new one).\<close>

definition getitem :: "frame \<Rightarrow> string \<Rightarrow> error + cell list" where
  "getitem df col = (case map_of df col of None \<Rightarrow> Inl (KeyError col) | Some xs \<Rightarrow> Inr xs)"

definition setitem :: "frame \<Rightarrow> string \<Rightarrow> cell list \<Rightarrow> frame" where
  "setitem df col xs = AList.update col xs df"

text \<open>\<open>df.replace(to_replace, value)\<close>: every cell equal to \<open>to_replace\<close>, in every
  column.\<close>

definition df_replace :: "cell \<Rightarrow> cell \<Rightarrow> frame \<Rightarrow> frame" where
  "df_replace to_replace val df =
     map (\<lambda>(col, xs). (col, map (\<lambda>x. if x = to_replace then val else x) xs)) df"

text \<open>
  \<open>pd.read_csv(..., dtype=str, keep_default_na=False)\<close>: the file's columns, every
  field a text, an empty field the empty text. Reading the file is not modelled: the
  argument is the table of texts the file holds.
\<close>

definition read_csv :: "(string \<times> string list) list \<Rightarrow> frame" where
  "read_csv table = map (\<lambda>(col, xs). (col, map Text xs)) table"

section \<open>Transformer: \<open>load_and_transform\<close>\<close>

text \<open>The body of the loop over the table, for one entry.\<close>

definition transform_column :: "string \<Rightarrow> string \<Rightarrow> frame \<Rightarrow> error + frame" where
  "transform_column col dtype df =
     (if dtype = ''str'' then
        (case getitem df col of
           Inl e \<Rightarrow> Inl e
         | Inr xs \<Rightarrow> Inr (setitem df col (astype_object xs)))
      else if dtype = ''int'' then
        (case getitem df col of
           Inl e \<Rightarrow> Inl e
         | Inr xs \<Rightarrow>
             (case astype_Int64 (to_numeric xs) of
                Inl e \<Rightarrow> Inl e
              | Inr ys \<Rightarrow> Inr (setitem df col ys)))
      else if dtype = ''float'' then
        (case (if col = ''Valeur fonciere'' then
                 (case getitem df col of
                    Inl e \<Rightarrow> Inl e
                  | Inr xs \<Rightarrow> Inr (setitem df col (str_replace '','' ''.'' xs)))
               else Inr df) of
           Inl e \<Rightarrow> Inl e
         | Inr df1 \<Rightarrow>
             (case getitem df1 col of
                Inl e \<Rightarrow> Inl e
              | Inr xs \<Rightarrow> Inr (setitem df1 col (float64_series (to_numeric xs)))))
      else if dtype = ''date'' then
        (case getitem df col of
           Inl e \<Rightarrow> Inl e
         | Inr xs \<Rightarrow> Inr (setitem df col (to_datetime xs)))
      else Inr df)"

text \<open>\<open>for col, dtype in transformations.items()\<close>: the first exception ends the loop.\<close>

fun apply_transformations :: "(string \<times> string) list \<Rightarrow> frame \<Rightarrow> error + frame" where
  "apply_transformations [] df = Inr df"
| "apply_transformations ((col, dtype) # rest) df =
     (case transform_column col dtype df of
        Inl e \<Rightarrow> Inl e
      | Inr df' \<Rightarrow> apply_transformations rest df')"

definition load_and_transform :: "(string \<times> string list) list \<Rightarrow> error + frame" where
  "load_and_transform table =
     (let df = read_csv table;
          df = df_replace (Text '''') NA df
      in apply_transformations transformations df)"

section \<open>Notions used to state the properties\<close>

text \<open>A loaded field after the replacement of empty texts: what the coercions see.\<close>

definition clean_field :: "string \<Rightarrow> cell" where
  "clean_field s = (if s = '''' then NA else Text s)"

text \<open>What one pass of the loop body computes from the column it reads, or the
  exception it raises.\<close>

definition coerce_column :: "string \<Rightarrow> string \<Rightarrow> cell list \<Rightarrow> error + cell list" where
  "coerce_column col dtype xs =
     (if dtype = ''str'' then Inr xs
      else if dtype = ''int'' then astype_Int64 (to_numeric xs)
      else if dtype = ''float'' then
        Inr (float64_series (to_numeric
          (if col = ''Valeur fonciere'' then str_replace '','' ''.'' xs else xs)))
      else if dtype = ''date'' then Inr (to_datetime xs)
      else Inr xs)"

definition known_dtype :: "string \<Rightarrow> bool" where
  "known_dtype t = (t = ''str'' \<or> t = ''int'' \<or> t = ''float'' \<or> t = ''date'')"


text \<open>A field an integer column takes: no number at all, or a whole number within
  64 bits.\<close>

definition int64_text :: "string \<Rightarrow> bool" where
  "int64_text s = (case floatify s of None \<Rightarrow> True | Some n \<Rightarrow> safe_int64 n)"

text \<open>The loaded table has every column of the coercion table; its integer-typed
  columns hold only fields such a column takes.\<close>

definition columns_present :: "(string \<times> string list) list \<Rightarrow> bool" where
  "columns_present table = list_all (\<lambda>(c, t). map_of table c \<noteq> None) transformations"

definition integers_safe :: "(string \<times> string list) list \<Rightarrow> bool" where
  "integers_safe table =
     list_all (\<lambda>(c, t). t \<noteq> ''int'' \<or>
        (case map_of table c of None \<Rightarrow> True | Some xs \<Rightarrow> list_all int64_text xs))
       transformations"

section \<open>Example inputs\<close>

text \<open>A catalog page and a resource list.\<close>

definition example_datasets :: "json_object list" where
  "example_datasets =
     [[(''id'', ''a1''), (''title'', ''Demandes de valeurs foncieres'')],
      [(''id'', ''b2''), (''title'', dvf_title @ '' geolocalisees'')],
      [(''id'', ''c3''), (''title'', dvf_title)],
      [(''id'', ''d4''), (''title'', dvf_title)]]"

definition example_resources :: "json_object list" where
  "example_resources =
     [[(''title'', ''Valeurs foncieres 2023''), (''format'', ''csv''), (''url'', ''u1'')],
      [(''title'', ''Valeurs foncieres 2022''), (''format'', ''txt.zip''), (''url'', ''u2'')],
      [(''title'', ''Valeurs foncieres 2023''), (''format'', ''txt.zip''), (''url'', ''u3'')],
      [(''title'', ''2023 bis''), (''format'', ''txt.zip''), (''url'', ''u4'')]]"

text \<open>A loaded table of two rows with every column of the coercion table and one
  more, \<open>Nature mutation\<close>; and the frame \<open>load_and_transform\<close> makes of it.\<close>

definition example_table :: "(string \<times> string list) list" where
  "example_table =
     [(''No disposition'', [''000001'', ''x1'']),
      (''Date mutation'', [''05/03/2023'', ''2023-03-05'']),
      (''Nature mutation'', [''Vente'', '''']),
      (''Valeur fonciere'', [''1234,56'', '''']),
      (''No voie'', [''12'', '''']),
      (''Code postal'', [''01000'', '''']),
      (''Code voie'', [''0042'', '''']),
      (''Code commune'', [''053'', '''']),
      (''Code departement'', [''01'', '''']),
      (''No plan'', [''7'', '''']),
      (''Section'', [''AB'', '''']),
      (''Code type local'', [''1'', '''']),
      (''Nombre de lots'', [''0'', '''']),
      (''Nombre pieces principales'', [''4'', '''']),
      (''Surface reelle bati'', [''85'', ''1234,56'']),
      (''Surface terrain'', [''120.5'', ''n/a''])]"

definition example_frame :: frame where
  "example_frame =
     [(''No disposition'', [Int64 1, NA]),
      (''Date mutation'', [Datetime 2023 3 5, NA]),
      (''Nature mutation'', [Text ''Vente'', NA]),
      (''Valeur fonciere'', [Float64 (Finite 1234.56), NA]),
      (''No voie'', [Text ''12'', NA]),
      (''Code postal'', [Text ''01000'', NA]),
      (''Code voie'', [Text ''0042'', NA]),
      (''Code commune'', [Text ''053'', NA]),
      (''Code departement'', [Text ''01'', NA]),
      (''No plan'', [Text ''7'', NA]),
      (''Section'', [Text ''AB'', NA]),
      (''Code type local'', [Text ''1'', NA]),
      (''Nombre de lots'', [Int64 0, NA]),
      (''Nombre pieces principales'', [Int64 4, NA]),
      (''Surface reelle bati'', [Float64 (Finite 85), NA]),
      (''Surface terrain'', [Float64 (Finite 120.5), NA])]"




section \<open>Properties\<close>

subsection \<open>The coercion table\<close>

text \<open>
  C2 (as the table is written): the coercion table names exactly fifteen columns, no
  name twice, and the types it uses are exactly the four semantic types
  \<open>int\<close>, \<open>float\<close>, \<open>date\<close> and \<open>str\<close>.
\<close>

theorem transformations_fifteen_columns:
  "length transformations = 15 \<and> distinct (map fst transformations) \<and>
   set (map snd transformations) = {''int'', ''float'', ''date'', ''str''}"
  unfolding transformations_def by (simp add: insert_commute)

text \<open>C2 as the specification words it, with seventeen columns, does not hold of the
  table.\<close>

theorem transformations_not_seventeen:
  "length transformations \<noteq> 17"
  unfolding transformations_def by simp

lemma transformations_distinct: "distinct (map fst transformations)"
  unfolding transformations_def by simp

lemma transformations_known: "\<forall>(c, t)\<in>set transformations. known_dtype t"
  unfolding transformations_def known_dtype_def by simp

subsection \<open>The resource locator\<close>

lemma py_in_sublist: "py_in sub s = sublist sub s"
  by (induction s) (auto simp: sublist_Cons_right)

lemma target_resource_append:
  "\<forall>x\<in>set pre. \<not> resource_matches year x \<Longrightarrow>
   target_resource year (pre @ rs) = target_resource year rs"
  by (induction pre) auto

lemma target_resource_split:
  "target_resource year rs = Some r \<Longrightarrow>
   \<exists>pre post. rs = pre @ r # post \<and> (\<forall>x\<in>set pre. \<not> resource_matches year x) \<and>
     resource_matches year r"
proof (induction rs)
  case Nil
  then show ?case by simp
next
  case (Cons a rs)
  show ?case
  proof (cases "resource_matches year a")
    case True
    with Cons.prems have "a = r" by simp
    with True have "a # rs = [] @ r # rs \<and> (\<forall>x\<in>set []. \<not> resource_matches year x) \<and>
      resource_matches year r" by simp
    then show ?thesis by blast
  next
    case False
    with Cons.prems have "target_resource year rs = Some r" by simp
    from Cons.IH [OF this] obtain pre post where
      "rs = pre @ r # post" "\<forall>x\<in>set pre. \<not> resource_matches year x" "resource_matches year r"
      by blast
    with False have "a # rs = (a # pre) @ r # post \<and>
      (\<forall>x\<in>set (a # pre). \<not> resource_matches year x) \<and> resource_matches year r" by simp
    then show ?thesis by blast
  qed
qed

lemma target_resource_None:
  "target_resource year rs = None \<longleftrightarrow> (\<forall>x\<in>set rs. \<not> resource_matches year x)"
  by (induction rs) auto

text \<open>
  C3: \<open>get_resource_url\<close> returns a URL exactly when the list splits into resources
  that fail the test, then a resource that passes it and carries that URL: the first
  match in list order. The test is the conjunction of both criteria (the title contains
  \<open>str(year)\<close>, the format is \<open>txt.zip\<close>), so a resource that meets only one is passed
  over. It raises the "no data for year" error exactly when no resource passes the test.
\<close>

theorem get_resource_url_first_match:
  "(get_resource_url (Some rs) year = Inr u \<longleftrightarrow>
      (\<exists>pre r post. rs = pre @ r # post \<and>
         (\<forall>x\<in>set pre. \<not> resource_matches year x) \<and>
         resource_matches year r \<and> map_of r ''url'' = Some u)) \<and>
   (get_resource_url (Some rs) year =
        Inl (ValueError (''No data found for year '' @ str_int year)) \<longleftrightarrow>
      (\<forall>x\<in>set rs. \<not> resource_matches year x)) \<and>
   (resource_matches year x \<longleftrightarrow>
      sublist (str_int year) (case map_of x ''title'' of None \<Rightarrow> [] | Some t \<Rightarrow> t) \<and>
      map_of x ''format'' = Some ''txt.zip'')"
proof (intro conjI)
  show "get_resource_url (Some rs) year = Inr u \<longleftrightarrow>
      (\<exists>pre r post. rs = pre @ r # post \<and>
         (\<forall>x\<in>set pre. \<not> resource_matches year x) \<and>
         resource_matches year r \<and> map_of r ''url'' = Some u)"
  proof
    assume "get_resource_url (Some rs) year = Inr u"
    then obtain r where "target_resource year rs = Some r" "map_of r ''url'' = Some u"
      by (auto simp: get_resource_url_def split: option.splits)
    then show "\<exists>pre r post. rs = pre @ r # post \<and>
         (\<forall>x\<in>set pre. \<not> resource_matches year x) \<and>
         resource_matches year r \<and> map_of r ''url'' = Some u"
      using target_resource_split [of year rs r] by blast
  next
    assume "\<exists>pre r post. rs = pre @ r # post \<and>
         (\<forall>x\<in>set pre. \<not> resource_matches year x) \<and>
         resource_matches year r \<and> map_of r ''url'' = Some u"
    then obtain pre r post where "rs = pre @ r # post"
      "\<forall>x\<in>set pre. \<not> resource_matches year x"
      "resource_matches year r" "map_of r ''url'' = Some u" by blast
    then show "get_resource_url (Some rs) year = Inr u"
      by (simp add: get_resource_url_def target_resource_append)
  qed
  show "get_resource_url (Some rs) year =
        Inl (ValueError (''No data found for year '' @ str_int year)) \<longleftrightarrow>
      (\<forall>x\<in>set rs. \<not> resource_matches year x)"
    using target_resource_None [of year rs]
    by (auto simp: get_resource_url_def split: option.splits)
  show "resource_matches year x \<longleftrightarrow>
      sublist (str_int year) (case map_of x ''title'' of None \<Rightarrow> [] | Some t \<Rightarrow> t) \<and>
      map_of x ''format'' = Some ''txt.zip''"
    by (simp add: resource_matches_def py_in_sublist)
qed

text \<open>On the example list, for 2023: the first resource has the year but another
  format, the second the format but another year; the third is returned, not the
  fourth. With the first two alone, the error is raised.\<close>

theorem get_resource_url_first_match_witness:
  "get_resource_url (Some example_resources) 2023 = Inr ''u3'' \<and>
   get_resource_url (Some (take 2 example_resources)) 2023 =
     Inl (ValueError ''No data found for year 2023'')"
proof
  have "example_resources = take 2 example_resources @ example_resources ! 2 # drop 3 example_resources \<and>
      (\<forall>x\<in>set (take 2 example_resources). \<not> resource_matches 2023 x) \<and>
      resource_matches 2023 (example_resources ! 2) \<and>
      map_of (example_resources ! 2) ''url'' = Some ''u3''"
    by code_simp
  then show "get_resource_url (Some example_resources) 2023 = Inr ''u3''"
    using get_resource_url_first_match [of example_resources 2023 "''u3''"] by blast
next
  have none: "\<forall>x\<in>set (take 2 example_resources). \<not> resource_matches 2023 x"
    by code_simp
  have str: "str_int 2023 = ''2023''"
    by code_simp
  from none show "get_resource_url (Some (take 2 example_resources)) 2023 =
     Inl (ValueError ''No data found for year 2023'')"
    using get_resource_url_first_match [of "take 2 example_resources" 2023] str by simp
qed

subsection \<open>The dataset resolver\<close>

lemma next_dvf_append:
  "\<forall>x\<in>set pre. \<exists>t. map_of x ''title'' = Some t \<and> t \<noteq> dvf_title \<Longrightarrow>
   next_dvf (pre @ ds) = next_dvf ds"
  by (induction pre) auto

lemma next_dvf_split:
  "next_dvf ds = Inr (Some d) \<Longrightarrow>
   \<exists>pre post. ds = pre @ d # post \<and>
     (\<forall>x\<in>set pre. \<exists>t. map_of x ''title'' = Some t \<and> t \<noteq> dvf_title) \<and>
     map_of d ''title'' = Some dvf_title"
proof (induction ds)
  case Nil
  then show ?case by simp
next
  case (Cons a ds)
  from Cons.prems obtain t where t: "map_of a ''title'' = Some t"
    by (cases "map_of a ''title''") auto
  show ?case
  proof (cases "t = dvf_title")
    case True
    with Cons.prems t have "a = d" by simp
    with True t have "a # ds = [] @ d # ds \<and>
      (\<forall>x\<in>set []. \<exists>t. map_of x ''title'' = Some t \<and> t \<noteq> dvf_title) \<and>
      map_of d ''title'' = Some dvf_title" by simp
    then show ?thesis by blast
  next
    case False
    with Cons.prems t have "next_dvf ds = Inr (Some d)" by simp
    from Cons.IH [OF this] obtain pre post where
      "ds = pre @ d # post"
      "\<forall>x\<in>set pre. \<exists>t. map_of x ''title'' = Some t \<and> t \<noteq> dvf_title"
      "map_of d ''title'' = Some dvf_title"
      by blast
    with False t have "a # ds = (a # pre) @ d # post \<and>
      (\<forall>x\<in>set (a # pre). \<exists>t. map_of x ''title'' = Some t \<and> t \<noteq> dvf_title) \<and>
      map_of d ''title'' = Some dvf_title" by simp
    then show ?thesis by blast
  qed
qed

lemma next_dvf_Inl: "next_dvf ds = Inl e \<Longrightarrow> e = KeyError ''title''"
  by (induction ds) (auto split: option.splits if_splits)

lemma next_dvf_None:
  "next_dvf ds = Inr None \<longleftrightarrow>
     (\<forall>x\<in>set ds. \<exists>t. map_of x ''title'' = Some t \<and> t \<noteq> dvf_title)"
  by (induction ds) (auto split: option.splits)

text \<open>
  C4: \<open>search_dvf_dataset\<close> returns an id exactly when the entries of the page split
  into entries with another title, then an entry whose title equals the literal and
  that carries this id: the id of the first entry with the exact title, and of no
  other. It raises the "dataset not found" error exactly when every entry of the page
  has another title, and when the page has no entries; it reads no further page. (An
  entry is a dataset record with its title, as the catalog sends it.)
\<close>

theorem search_dvf_dataset_exact_title:
  "(search_dvf_dataset (Some ds) = Inr i \<longleftrightarrow>
      (\<exists>pre d post. ds = pre @ d # post \<and>
         (\<forall>x\<in>set pre. \<exists>t. map_of x ''title'' = Some t \<and> t \<noteq> dvf_title) \<and>
         map_of d ''title'' = Some dvf_title \<and> map_of d ''id'' = Some i)) \<and>
   (search_dvf_dataset (Some ds) = Inl (ValueError ''DVF dataset not found'') \<longleftrightarrow>
      (\<forall>x\<in>set ds. \<exists>t. map_of x ''title'' = Some t \<and> t \<noteq> dvf_title)) \<and>
   search_dvf_dataset None = Inl (ValueError ''DVF dataset not found'')"
proof (intro conjI)
  show "search_dvf_dataset (Some ds) = Inr i \<longleftrightarrow>
      (\<exists>pre d post. ds = pre @ d # post \<and>
         (\<forall>x\<in>set pre. \<exists>t. map_of x ''title'' = Some t \<and> t \<noteq> dvf_title) \<and>
         map_of d ''title'' = Some dvf_title \<and> map_of d ''id'' = Some i)"
  proof
    assume "search_dvf_dataset (Some ds) = Inr i"
    then obtain d where "next_dvf ds = Inr (Some d)" "map_of d ''id'' = Some i"
      by (auto simp: search_dvf_dataset_def split: sum.splits option.splits)
    then show "\<exists>pre d post. ds = pre @ d # post \<and>
         (\<forall>x\<in>set pre. \<exists>t. map_of x ''title'' = Some t \<and> t \<noteq> dvf_title) \<and>
         map_of d ''title'' = Some dvf_title \<and> map_of d ''id'' = Some i"
      using next_dvf_split [of ds d] by blast
  next
    assume "\<exists>pre d post. ds = pre @ d # post \<and>
         (\<forall>x\<in>set pre. \<exists>t. map_of x ''title'' = Some t \<and> t \<noteq> dvf_title) \<and>
         map_of d ''title'' = Some dvf_title \<and> map_of d ''id'' = Some i"
    then obtain pre d post where "ds = pre @ d # post"
      "\<forall>x\<in>set pre. \<exists>t. map_of x ''title'' = Some t \<and> t \<noteq> dvf_title"
      "map_of d ''title'' = Some dvf_title" "map_of d ''id'' = Some i" by blast
    then show "search_dvf_dataset (Some ds) = Inr i"
      by (simp add: search_dvf_dataset_def next_dvf_append)
  qed
  show "search_dvf_dataset (Some ds) = Inl (ValueError ''DVF dataset not found'') \<longleftrightarrow>
      (\<forall>x\<in>set ds. \<exists>t. map_of x ''title'' = Some t \<and> t \<noteq> dvf_title)"
    using next_dvf_None [of ds]
    by (auto simp: search_dvf_dataset_def split: sum.splits option.splits
        dest: next_dvf_Inl)
  show "search_dvf_dataset None = Inl (ValueError ''DVF dataset not found'')"
    by (simp add: search_dvf_dataset_def)
qed

text \<open>On the example page: the first title lacks the accent, the second is longer;
  the third entry's id is returned, not the fourth's. With the first two alone, the
  error is raised.\<close>

theorem search_dvf_dataset_exact_title_witness:
  "search_dvf_dataset (Some example_datasets) = Inr ''c3'' \<and>
   search_dvf_dataset (Some (take 2 example_datasets)) =
     Inl (ValueError ''DVF dataset not found'')"
proof
  have "example_datasets = take 2 example_datasets @ example_datasets ! 2 # drop 3 example_datasets \<and>
      (\<forall>x\<in>set (take 2 example_datasets). \<exists>t. map_of x ''title'' = Some t \<and> t \<noteq> dvf_title) \<and>
      map_of (example_datasets ! 2) ''title'' = Some dvf_title \<and>
      map_of (example_datasets ! 2) ''id'' = Some ''c3''"
    by (simp add: example_datasets_def dvf_title_def)
  then show "search_dvf_dataset (Some example_datasets) = Inr ''c3''"
    using search_dvf_dataset_exact_title [of example_datasets "''c3''"] by blast
next
  have "\<forall>x\<in>set (take 2 example_datasets). \<exists>t. map_of x ''title'' = Some t \<and> t \<noteq> dvf_title"
    by (simp add: example_datasets_def dvf_title_def)
  then show "search_dvf_dataset (Some (take 2 example_datasets)) =
     Inl (ValueError ''DVF dataset not found'')"
    using search_dvf_dataset_exact_title [of "take 2 example_datasets"] by simp
qed

subsection \<open>The loop over the coercion table\<close>

lemma getitem_update: "getitem (AList.update col xs df) col = Inr xs"
  by (simp add: getitem_def update_conv')

lemma transform_column_eq:
  assumes "known_dtype dtype"
  shows "transform_column col dtype df =
     (case map_of df col of
        None \<Rightarrow> Inl (KeyError col)
      | Some xs \<Rightarrow>
          (case coerce_column col dtype xs of
             Inl e \<Rightarrow> Inl e
           | Inr ys \<Rightarrow> Inr (AList.update col ys df)))"
proof (cases "map_of df col")
  case None
  then have "getitem df col = Inl (KeyError col)" by (simp add: getitem_def)
  with None assms show ?thesis
    by (auto simp: transform_column_def known_dtype_def)
next
  case (Some xs)
  then have g: "getitem df col = Inr xs" by (simp add: getitem_def)
  from assms consider "dtype = ''str''" | "dtype = ''int''" | "dtype = ''float''" | "dtype = ''date''"
    by (auto simp: known_dtype_def)
  then show ?thesis
  proof cases
    case 1
    with Some g show ?thesis
      by (simp add: transform_column_def coerce_column_def setitem_def astype_object_def)
  next
    case 2
    with Some g show ?thesis
      by (simp add: transform_column_def coerce_column_def setitem_def split: sum.splits)
  next
    case 3
    show ?thesis
    proof (cases "col = ''Valeur fonciere''")
      case True
      from g True have g': "getitem df ''Valeur fonciere'' = Inr xs" by simp
      from Some True have s': "map_of df ''Valeur fonciere'' = Some xs" by simp
      show ?thesis
        unfolding transform_column_def coerce_column_def 3 True
        by (simp add: g' s' setitem_def getitem_update)
    next
      case False
      with 3 Some g show ?thesis
        by (simp add: transform_column_def coerce_column_def setitem_def)
    qed
  next
    case 4
    with Some g show ?thesis
      by (simp add: transform_column_def coerce_column_def setitem_def)
  qed
qed

lemma map_fst_update_present:
  "map_of al k = Some v \<Longrightarrow> map fst (AList.update k w al) = map fst al"
  by (induction al) (auto split: if_splits)

text \<open>The loop, when it succeeds.\<close>

lemma apply_transformations_Inr:
  assumes "apply_transformations tbl df = Inr out"
    and "distinct (map fst tbl)"
    and "\<forall>(c, t)\<in>set tbl. known_dtype t"
  shows "map fst out = map fst df \<and>
    (\<forall>c. c \<notin> fst ` set tbl \<longrightarrow> map_of out c = map_of df c) \<and>
    (\<forall>(c, t)\<in>set tbl. \<exists>xs ys. map_of df c = Some xs \<and> coerce_column c t xs = Inr ys \<and>
        map_of out c = Some ys)"
  using assms
proof (induction tbl arbitrary: df)
  case Nil
  then show ?case by simp
next
  case (Cons p tbl)
  obtain c0 t0 where p: "p = (c0, t0)" by (cases p)
  from Cons.prems(3) p have k0: "known_dtype t0" by simp
  from Cons.prems(1) p obtain df' where
    step: "transform_column c0 t0 df = Inr df'" and
    rest: "apply_transformations tbl df' = Inr out"
    by (auto split: sum.splits)
  from step obtain xs0 ys0 where
    xs0: "map_of df c0 = Some xs0" and ys0: "coerce_column c0 t0 xs0 = Inr ys0" and
    df': "df' = AList.update c0 ys0 df"
    by (auto simp: transform_column_eq [OF k0] split: option.splits sum.splits)
  from Cons.prems(2) p have d: "distinct (map fst tbl)" and notin: "c0 \<notin> fst ` set tbl"
    by auto
  from Cons.prems(3) have k: "\<forall>(c, t)\<in>set tbl. known_dtype t" by simp
  note IH = Cons.IH [OF rest d k]
  have names: "map fst out = map fst df"
    using IH df' map_fst_update_present [OF xs0] by simp
  have out_other: "\<forall>c. c \<notin> fst ` set (p # tbl) \<longrightarrow> map_of out c = map_of df c"
    using IH df' p by (auto simp: update_conv')
  have c0_out: "map_of out c0 = Some ys0"
    using IH notin df' by (simp add: update_conv')
  have "\<exists>xs ys. map_of df c = Some xs \<and> coerce_column c t xs = Inr ys \<and> map_of out c = Some ys"
    if "(c, t) \<in> set (p # tbl)" for c t
  proof (cases "(c, t) = p")
    case True
    with p xs0 ys0 c0_out show ?thesis by auto
  next
    case False
    with that have in_tbl: "(c, t) \<in> set tbl" by simp
    with notin have "c \<noteq> c0" by force
    with IH in_tbl df' show ?thesis by (fastforce simp: update_conv')
  qed
  with names out_other show ?case by blast
qed




subsection \<open>The transformer on a loaded table\<close>

lemma floatify_Nil: "floatify [] = None"
  by code_simp

lemma strptime_dmY_Nil: "strptime_dmY [] = None"
  by code_simp

lemma cleaned_lookup:
  "map_of (df_replace (Text []) NA (read_csv table)) c =
     map_option (map clean_field) (map_of table c)"
proof -
  have "df_replace (Text []) NA (read_csv table) =
      map (\<lambda>(col, xs). (col, map clean_field xs)) table"
    by (auto simp: df_replace_def read_csv_def clean_field_def)
  then show ?thesis
    by (simp add: map_of_map)
qed

lemma cleaned_names: "map fst (df_replace (Text []) NA (read_csv table)) = map fst table"
  by (auto simp: df_replace_def read_csv_def)

lemma to_numeric_clean: "to_numeric_cell (clean_field s) = floatify s"
  by (simp add: clean_field_def floatify_Nil)

lemma to_numeric_replace_clean:
  "to_numeric_cell (str_replace_cell old new (clean_field s)) =
     floatify (py_replace old new s)" if "old \<noteq> []"
  using that by (simp add: clean_field_def floatify_Nil)

lemma to_datetime_clean:
  "to_datetime_cell (clean_field s) =
     (case strptime_dmY s of None \<Rightarrow> NA | Some (y, m, d) \<Rightarrow> Datetime y m d)"
  by (simp add: clean_field_def strptime_dmY_Nil)

lemma int_column_safe:
  "list_all (\<lambda>x. case x of None \<Rightarrow> True | Some n \<Rightarrow> safe_int64 n)
     (to_numeric (map clean_field xs)) = list_all int64_text xs"
  by (simp add: to_numeric_def list_all_iff int64_text_def to_numeric_clean)

lemma coerce_column_length: "coerce_column c t zs = Inr ys \<Longrightarrow> length ys = length zs"
  by (auto simp: coerce_column_def astype_Int64_def to_numeric_def float64_series_def
      str_replace_def to_datetime_def split: if_splits)

text \<open>What a successful coercion makes of each field of a loaded column.\<close>

lemma coerce_column_cell:
  assumes "coerce_column c t (map clean_field xs) = Inr ys" and "i < length xs"
  shows "ys ! i =
     (if t = ''str'' then clean_field (xs ! i)
      else if t = ''int'' then int64_cell (floatify (xs ! i))
      else if t = ''float'' then
        (case floatify (if c = ''Valeur fonciere'' then py_replace '','' ''.'' (xs ! i) else xs ! i) of
           None \<Rightarrow> NA | Some n \<Rightarrow> Float64 n)
      else if t = ''date'' then
        (case strptime_dmY (xs ! i) of None \<Rightarrow> NA | Some (y, m, d) \<Rightarrow> Datetime y m d)
      else clean_field (xs ! i))"
  using assms
  by (auto simp: coerce_column_def astype_Int64_def to_numeric_def float64_series_def
      str_replace_def to_datetime_def to_numeric_clean to_numeric_replace_clean to_datetime_clean
      split: if_splits)

lemma load_and_transform_Inr:
  assumes "load_and_transform table = Inr out"
  shows "map fst out = map fst table \<and>
    (\<forall>c. c \<notin> fst ` set transformations \<longrightarrow>
        map_of out c = map_option (map clean_field) (map_of table c)) \<and>
    (\<forall>(c, t)\<in>set transformations. \<exists>xs ys. map_of table c = Some xs \<and>
        coerce_column c t (map clean_field xs) = Inr ys \<and> map_of out c = Some ys)"
proof -
  let ?df = "df_replace (Text []) NA (read_csv table)"
  from assms have run: "apply_transformations transformations ?df = Inr out"
    by (simp add: load_and_transform_def)
  note L = apply_transformations_Inr [OF run transformations_distinct transformations_known]
  have "\<exists>xs ys. map_of table c = Some xs \<and>
        coerce_column c t (map clean_field xs) = Inr ys \<and> map_of out c = Some ys"
    if "(c, t) \<in> set transformations" for c t
  proof -
    from L that obtain zs ys where z: "map_of ?df c = Some zs"
      "coerce_column c t zs = Inr ys" "map_of out c = Some ys" by blast
    from z(1) obtain xs where "map_of table c = Some xs" "zs = map clean_field xs"
      by (auto simp: cleaned_lookup)
    with z show ?thesis by blast
  qed
  with L show ?thesis
    by (auto simp: cleaned_lookup cleaned_names)
qed


lemma load_and_transform_Inr_safe:
  assumes "load_and_transform table = Inr out"
  shows "columns_present table \<and> integers_safe table"
proof -
  note L = load_and_transform_Inr [OF assms]
  have "map_of table c \<noteq> None \<and>
      (t \<noteq> ''int'' \<or> (case map_of table c of None \<Rightarrow> True | Some xs \<Rightarrow> list_all int64_text xs))"
    if "(c, t) \<in> set transformations" for c t
  proof -
    from L that obtain xs ys where xs: "map_of table c = Some xs"
      "coerce_column c t (map clean_field xs) = Inr ys" by blast
    then show ?thesis
      by (auto simp: coerce_column_def astype_Int64_def int_column_safe split: if_splits)
  qed
  then show ?thesis
    by (auto simp: columns_present_def integers_safe_def list_all_iff)
qed

subsection \<open>Parsing facts\<close>









lemma example_result: "load_and_transform example_table = Inr example_frame"
  by code_simp

subsection \<open>Empty fields\<close>

text \<open>
  C5: the replacement of empty texts is applied to every column of the loaded table,
  before the loop over the coercion table: an empty field is the missing marker in the
  frame the coercions get. Consequently, in the frame \<open>load_and_transform\<close> returns, the
  value at the place of an empty field is the missing marker, never an empty text, in
  the columns of the coercion table and in every other column.
\<close>

theorem empty_fields_become_null:
  assumes "load_and_transform table = Inr out"
    and "map_of table c = Some xs" and "i < length xs" and "xs ! i = ''''"
  shows "(\<exists>zs. map_of (df_replace (Text '''') NA (read_csv table)) c = Some zs \<and> zs ! i = NA) \<and>
         (\<exists>ys. map_of out c = Some ys \<and> length ys = length xs \<and> ys ! i = NA)"
proof
  from assms(2-4)
  show "\<exists>zs. map_of (df_replace (Text '''') NA (read_csv table)) c = Some zs \<and> zs ! i = NA"
    by (simp add: cleaned_lookup clean_field_def)
next
  note L = load_and_transform_Inr [OF assms(1)]
  show "\<exists>ys. map_of out c = Some ys \<and> length ys = length xs \<and> ys ! i = NA"
  proof (cases "c \<in> fst ` set transformations")
    case True
    then obtain t where "(c, t) \<in> set transformations" by auto
    with L assms(2) obtain ys where
      ys: "coerce_column c t (map clean_field xs) = Inr ys" "map_of out c = Some ys"
      by fastforce
    from coerce_column_length [OF ys(1)] have len: "length ys = length xs" by simp
    from coerce_column_cell [OF ys(1) assms(3)] assms(4) have "ys ! i = NA"
      by (simp add: clean_field_def floatify_Nil strptime_dmY_Nil split: if_splits)
    with ys len show ?thesis by blast
  next
    case False
    with L assms(2) have "map_of out c = Some (map clean_field xs)" by simp
    with assms(3,4) show ?thesis by (simp add: clean_field_def)
  qed
qed

text \<open>On the example table: the second postal code is empty, and missing in the result.\<close>

theorem empty_fields_become_null_witness:
  "load_and_transform example_table = Inr example_frame \<and>
   map_of example_table ''Code postal'' = Some [''01000'', ''''] \<and>
   [''01000'', ''''] ! 1 = '''' \<and>
   (\<exists>ys. map_of example_frame ''Code postal'' = Some ys \<and>
      length ys = length [''01000'', ''''] \<and> ys ! 1 = NA)"
proof -
  have col: "map_of example_table ''Code postal'' = Some [''01000'', '''']"
    by code_simp
  have "\<exists>ys. map_of example_frame ''Code postal'' = Some ys \<and>
      length ys = length [''01000'', ''''] \<and> ys ! 1 = NA"
    using empty_fields_become_null [OF example_result col, of 1] by simp
  then show ?thesis using example_result col by simp
qed

subsection \<open>Columns outside the coercion table\<close>

text \<open>
  C9 (as the code behaves): the frame \<open>load_and_transform\<close> returns has the columns of
  the loaded table, under the same names in the same order; a column whose name is not
  in the coercion table keeps every non-empty text as loaded, and has the missing marker
  where the loaded text was empty.
\<close>

theorem unlisted_columns_keep_nonempty_text:
  assumes "load_and_transform table = Inr out" and "c \<notin> fst ` set transformations"
  shows "map fst out = map fst table \<and>
         map_of out c =
           map_option (map (\<lambda>s. if s = '''' then NA else Text s)) (map_of table c)"
proof -
  have "clean_field = (\<lambda>s. if s = '''' then NA else Text s)"
    by (auto simp: clean_field_def)
  with load_and_transform_Inr [OF assms(1)] assms(2) show ?thesis by simp
qed

text \<open>On the example table, for the column \<open>Nature mutation\<close>.\<close>

theorem unlisted_columns_keep_nonempty_text_witness:
  "load_and_transform example_table = Inr example_frame \<and>
   ''Nature mutation'' \<notin> fst ` set transformations \<and>
   map fst example_frame = map fst example_table \<and>
   map_of example_frame ''Nature mutation'' =
     map_option (map (\<lambda>s. if s = '''' then NA else Text s))
       (map_of example_table ''Nature mutation'')"
proof -
  have notin: "''Nature mutation'' \<notin> fst ` set transformations"
    by (simp add: transformations_def)
  from unlisted_columns_keep_nonempty_text [OF example_result notin]
  show ?thesis using example_result notin by simp
qed

text \<open>
  C9 as the specification words it, that the values of such a column equal its loaded
  texts, does not hold: the second field of \<open>Nature mutation\<close> is loaded as the empty
  text and is the missing marker after the transformation.
\<close>

theorem unlisted_column_empty_text_counterexample:
  "''Nature mutation'' \<notin> fst ` set transformations \<and>
   map_of example_table ''Nature mutation'' = Some [''Vente'', ''''] \<and>
   load_and_transform example_table = Inr example_frame \<and>
   map_of example_frame ''Nature mutation'' = Some [Text ''Vente'', NA] \<and>
   [Text ''Vente'', NA] \<noteq> map Text [''Vente'', '''']"
proof -
  have "''Nature mutation'' \<notin> fst ` set transformations"
    by (simp add: transformations_def)
  moreover have "map_of example_table ''Nature mutation'' = Some [''Vente'', '''']"
    by code_simp
  moreover have "map_of example_frame ''Nature mutation'' = Some [Text ''Vente'', NA]"
    by code_simp
  ultimately show ?thesis using example_result by simp
qed

subsection \<open>The monetary column\<close>



subsection \<open>Date columns\<close>



subsection \<open>Fields that fail to parse\<close>




subsection \<open>Missing columns\<close>




end
